theory Spec2Isabelle
  imports Complex_Main
begin

section \<open>Data model of the NFT card (src/components/NftCard.tsx)\<close>

text \<open>
  The fields of \<open>NftRecord\<close> that the card reads. \<open>created_height\<close> is
  \<open>number | null\<close> and \<open>owner_did\<close> is \<open>string | null\<close> in the bindings.
\<close>

record NftRecord =
  launcher_id :: string
  visible :: bool
  created_height :: "nat option"
  owner_did :: "string option"

text \<open>
  \<open>walletState.sync\<close>: the balance (an amount string), the decimals of the unit
  and the burn address, all supplied by the host.
\<close>

record WalletSync =
  balance :: string
  unit_decimals :: nat
  burn_address :: string

text \<open>
  What a call of the \<open>commands\<close> bindings resolves to: \<open>{status: 'ok', data}\<close> or
  \<open>{status: 'error', error}\<close>. The summary type \<open>'tx\<close> and the cause type \<open>'e\<close>
  are opaque to the card.
\<close>

datatype ('tx, 'e) Result = ResultOk 'tx | ResultError 'e

text \<open>
  A promise either fulfils with a value or rejects. The handlers attach a \<open>.then\<close>
  callback only, so the callback does not run when the promise rejects.
\<close>

datatype 'r settled = Fulfilled 'r | Rejected

text \<open>The calls the card issues through \<open>commands\<close>, with their arguments in order.\<close>

datatype command =
    UpdateNft string bool
  | TransferNfts "string list" string string
  | AssignNftsToDid "string list" "string option" string
  | AddNftUri string string string string

text \<open>
  What the card does besides setting its own state: a call through \<open>commands\<close>,
  \<open>console.error(msg, cause)\<close>, the host's \<open>updateNfts()\<close>, or
  \<open>throw new Error(msg)\<close>.
\<close>

datatype 'e effect = Invoke command | ConsoleError string 'e | UpdateNfts | Throw string

text \<open>The six \<open>useState\<close> cells of the card.\<close>

record 'tx card =
  transferOpen :: bool
  assignOpen :: bool
  unassignOpen :: bool
  addUrlOpen :: bool
  burnOpen :: bool
  summary :: "'tx option"

record AddUrlValues =
  url :: string
  kind :: string
  fee :: string

section \<open>The handlers\<close>

text \<open>
  Each handler issues one call at once (\<open>_call\<close>) and registers a callback that runs
  when the promise fulfils (\<open>_then\<close>), on the state the card has at that moment.
\<close>

definition toggleVisibility_call :: "NftRecord \<Rightarrow> command" where
  "toggleVisibility_call nft = UpdateNft (launcher_id nft) (\<not> visible nft)"

definition toggleVisibility_then ::
  "('u, 'e) Result \<Rightarrow> 'tx card \<Rightarrow> 'tx card \<times> 'e effect list" where
  "toggleVisibility_then result s =
     (case result of
        ResultOk _ \<Rightarrow> (s, [UpdateNfts])
      | ResultError _ \<Rightarrow> (s, [Throw ''Failed to toggle visibility for NFT'']))"

definition onTransferSubmit_call :: "NftRecord \<Rightarrow> string \<Rightarrow> string \<Rightarrow> command" where
  "onTransferSubmit_call nft address fee' = TransferNfts [launcher_id nft] address fee'"

definition onTransferSubmit_then ::
  "('tx, 'e) Result \<Rightarrow> 'tx card \<Rightarrow> 'tx card \<times> 'e effect list" where
  "onTransferSubmit_then result s =
     (let s1 = s\<lparr>transferOpen := False\<rparr> in
      case result of
        ResultError e \<Rightarrow> (s1, [ConsoleError ''Failed to transfer NFT'' e])
      | ResultOk d \<Rightarrow> (s1\<lparr>summary := Some d\<rparr>, []))"

definition onAssignSubmit_call :: "NftRecord \<Rightarrow> string \<Rightarrow> string \<Rightarrow> command" where
  "onAssignSubmit_call nft profile fee' =
     AssignNftsToDid [launcher_id nft] (Some profile) fee'"

definition onAssignSubmit_then ::
  "('tx, 'e) Result \<Rightarrow> 'tx card \<Rightarrow> 'tx card \<times> 'e effect list" where
  "onAssignSubmit_then result s =
     (let s1 = s\<lparr>assignOpen := False\<rparr> in
      case result of
        ResultError e \<Rightarrow> (s1, [ConsoleError ''Failed to assign NFT'' e])
      | ResultOk d \<Rightarrow> (s1\<lparr>summary := Some d\<rparr>, []))"

definition onUnassignSubmit_call :: "NftRecord \<Rightarrow> string \<Rightarrow> command" where
  "onUnassignSubmit_call nft fee' = AssignNftsToDid [launcher_id nft] None fee'"

definition onUnassignSubmit_then ::
  "('tx, 'e) Result \<Rightarrow> 'tx card \<Rightarrow> 'tx card \<times> 'e effect list" where
  "onUnassignSubmit_then result s =
     (let s1 = s\<lparr>unassignOpen := False\<rparr> in
      case result of
        ResultError e \<Rightarrow> (s1, [ConsoleError ''Failed to unassign NFT'' e])
      | ResultOk d \<Rightarrow> (s1\<lparr>summary := Some d\<rparr>, []))"

definition onAddUrlSubmit_call :: "NftRecord \<Rightarrow> AddUrlValues \<Rightarrow> command" where
  "onAddUrlSubmit_call nft values =
     AddNftUri (launcher_id nft) (url values) (kind values) (fee values)"

definition onAddUrlSubmit_then ::
  "('tx, 'e) Result \<Rightarrow> 'tx card \<Rightarrow> 'tx card \<times> 'e effect list" where
  "onAddUrlSubmit_then result s =
     (let s1 = s\<lparr>addUrlOpen := False\<rparr> in
      case result of
        ResultError e \<Rightarrow> (s1, [ConsoleError ''Failed to add NFT URL'' e])
      | ResultOk d \<Rightarrow> (s1\<lparr>summary := Some d\<rparr>, []))"

definition onBurnSubmit_call :: "WalletSync \<Rightarrow> NftRecord \<Rightarrow> string \<Rightarrow> command" where
  "onBurnSubmit_call sync nft fee' =
     TransferNfts [launcher_id nft] (burn_address sync) fee'"

definition onBurnSubmit_then ::
  "('tx, 'e) Result \<Rightarrow> 'tx card \<Rightarrow> 'tx card \<times> 'e effect list" where
  "onBurnSubmit_then result s =
     (let s1 = s\<lparr>burnOpen := False\<rparr> in
      case result of
        ResultError e \<Rightarrow> (s1, [ConsoleError ''Failed to burn NFT'' e])
      | ResultOk d \<Rightarrow> (s1\<lparr>summary := Some d\<rparr>, []))"

text \<open>
  The five mutating submissions as one type, so that a statement can range over
  all handlers: the call a submission issues, the callback it registers, and the
  \<open>useState\<close> cell of its input surface.
\<close>

datatype submission =
    TransferSubmission string string
  | AssignSubmission string string
  | UnassignSubmission string
  | AddUrlSubmission AddUrlValues
  | BurnSubmission string

fun handler_call :: "WalletSync \<Rightarrow> NftRecord \<Rightarrow> submission \<Rightarrow> command" where
  "handler_call sync nft (TransferSubmission address fee') = onTransferSubmit_call nft address fee'"
| "handler_call sync nft (AssignSubmission profile fee') = onAssignSubmit_call nft profile fee'"
| "handler_call sync nft (UnassignSubmission fee') = onUnassignSubmit_call nft fee'"
| "handler_call sync nft (AddUrlSubmission values) = onAddUrlSubmit_call nft values"
| "handler_call sync nft (BurnSubmission fee') = onBurnSubmit_call sync nft fee'"

fun handler_then ::
  "submission \<Rightarrow> ('tx, 'e) Result \<Rightarrow> 'tx card \<Rightarrow> 'tx card \<times> 'e effect list" where
  "handler_then (TransferSubmission _ _) = onTransferSubmit_then"
| "handler_then (AssignSubmission _ _) = onAssignSubmit_then"
| "handler_then (UnassignSubmission _) = onUnassignSubmit_then"
| "handler_then (AddUrlSubmission _) = onAddUrlSubmit_then"
| "handler_then (BurnSubmission _) = onBurnSubmit_then"

fun surface_open :: "submission \<Rightarrow> 'tx card \<Rightarrow> bool" where
  "surface_open (TransferSubmission _ _) s = transferOpen s"
| "surface_open (AssignSubmission _ _) s = assignOpen s"
| "surface_open (UnassignSubmission _) s = unassignOpen s"
| "surface_open (AddUrlSubmission _) s = addUrlOpen s"
| "surface_open (BurnSubmission _) s = burnOpen s"

section \<open>The dropdown menu\<close>

text \<open>
  \<open>!nft.created_height\<close>: true for \<open>null\<close>, and for the number 0 as well, since
  JavaScript's negation treats 0 as false.
\<close>

definition not_created :: "NftRecord \<Rightarrow> bool" where
  "not_created nft = (case created_height nft of None \<Rightarrow> True | Some h \<Rightarrow> h = 0)"

datatype menu_action =
  OpenTransfer | OpenAssign | OpenUnassign | OpenAddUrl | OpenBurn | ToggleVisibility

record menu_item =
  item_action :: menu_action
  item_label :: string
  item_disabled :: bool

text \<open>
  The items in the order the card renders them. The unassign item is rendered only
  when the entity has an owner profile; the visibility item has no \<open>disabled\<close>
  property at all.
\<close>

definition menu_items :: "NftRecord \<Rightarrow> menu_item list" where
  "menu_items nft =
     [\<lparr>item_action = OpenTransfer, item_label = ''Transfer'',
        item_disabled = not_created nft\<rparr>,
      \<lparr>item_action = OpenAssign,
        item_label = (if owner_did nft = None then ''Assign Profile'' else ''Reassign Profile''),
        item_disabled = not_created nft\<rparr>]
     @ (if owner_did nft \<noteq> None
        then [\<lparr>item_action = OpenUnassign, item_label = ''Unassign Profile'',
                item_disabled = not_created nft\<rparr>]
        else [])
     @ [\<lparr>item_action = OpenAddUrl, item_label = ''Add URL'',
          item_disabled = not_created nft\<rparr>,
        \<lparr>item_action = OpenBurn, item_label = ''Burn'',
          item_disabled = not_created nft\<rparr>,
        \<lparr>item_action = ToggleVisibility,
          item_label = (if visible nft then ''Hide'' else ''Show''),
          item_disabled = False\<rparr>]"

text \<open>An action can be chosen when the menu shows an item for it that is not disabled.\<close>

definition action_enabled :: "NftRecord \<Rightarrow> menu_action \<Rightarrow> bool" where
  "action_enabled nft a =
     list_ex (\<lambda>i. item_action i = a \<and> \<not> item_disabled i) (menu_items nft)"

text \<open>
  The \<open>onClick\<close> of each item: five open a surface, the last calls
  \<open>toggleVisibility\<close>. The add-URL item also resets its form; the values of a form
  are what the user enters, an input of the submit below, so the reset leaves no
  trace in the card's cells.
\<close>

fun menu_onClick :: "NftRecord \<Rightarrow> menu_action \<Rightarrow> 'tx card \<Rightarrow> 'tx card \<times> 'e effect list" where
  "menu_onClick nft OpenTransfer s = (s\<lparr>transferOpen := True\<rparr>, [])"
| "menu_onClick nft OpenAssign s = (s\<lparr>assignOpen := True\<rparr>, [])"
| "menu_onClick nft OpenUnassign s = (s\<lparr>unassignOpen := True\<rparr>, [])"
| "menu_onClick nft OpenAddUrl s = (s\<lparr>addUrlOpen := True\<rparr>, [])"
| "menu_onClick nft OpenBurn s = (s\<lparr>burnOpen := True\<rparr>, [])"
| "menu_onClick nft ToggleVisibility s = (s, [Invoke (toggleVisibility_call nft)])"

section \<open>Validation of the add-URL form\<close>

text \<open>
  The values of bignumber.js: not-a-number, the two infinities and the finite
  decimals, which are exact. \<open>x.gte(y)\<close> is false whenever either side is NaN.
\<close>

datatype BigNumber = NaN | NegInfinity | Finite rat | Infinity

fun gte :: "BigNumber \<Rightarrow> BigNumber \<Rightarrow> bool" where
  "gte NaN _ = False"
| "gte _ NaN = False"
| "gte Infinity _ = True"
| "gte _ NegInfinity = True"
| "gte NegInfinity _ = False"
| "gte (Finite a) Infinity = False"
| "gte (Finite a) (Finite b) = (b \<le> a)"

text \<open>
  \<open>BigNumber(amount || 0)\<close>: the fee is the string of the input field, which the
  handler passes on to the call as it is; the empty string is falsy, so it stands
  for 0. The library's parser \<open>bn\<close> of strings is a parameter.
\<close>

definition fee_or_zero :: "(string \<Rightarrow> BigNumber) \<Rightarrow> string \<Rightarrow> BigNumber" where
  "fee_or_zero bn a = (if a = [] then Finite 0 else bn a)"

text \<open>
  \<open>addUrlFormSchema\<close>: url and kind of length at least 1, the fee accepted by
  \<open>amount(decimals)\<close> (of \<open>@/lib/formTypes\<close>, a parameter here) and covered by the
  balance.
\<close>

definition addUrlFormSchema ::
  "(string \<Rightarrow> BigNumber) \<Rightarrow> (nat \<Rightarrow> string \<Rightarrow> bool) \<Rightarrow> WalletSync \<Rightarrow> AddUrlValues \<Rightarrow> bool" where
  "addUrlFormSchema bn amount sync values =
     (1 \<le> length (url values) \<and> 1 \<le> length (kind values)
      \<and> amount (unit_decimals sync) (fee values)
      \<and> gte (bn (balance sync)) (fee_or_zero bn (fee values)))"

text \<open>
  \<open>addUrlForm.handleSubmit(onAddUrlSubmit)\<close>: the resolver checks the values against
  the schema and the handler is called only when they pass.
\<close>

definition addUrlForm_handleSubmit ::
  "(string \<Rightarrow> BigNumber) \<Rightarrow> (nat \<Rightarrow> string \<Rightarrow> bool) \<Rightarrow> WalletSync \<Rightarrow> AddUrlValues
   \<Rightarrow> submission option" where
  "addUrlForm_handleSubmit bn amount sync values =
     (if addUrlFormSchema bn amount sync values then Some (AddUrlSubmission values) else None)"

text \<open>
  Modelled from the spec: the components TransferDialog, AssignNftDialog and
  FeeOnlyDialog are not among the sources. The spec's validation policy, which it
  applies to every action kind that takes a fee: the fee parses as a non-negative
  decimal amount, the fee is at most the known balance, and the action's own
  fields are non-empty. A dialog calls its \<open>onSubmit\<close> only when the policy holds.
\<close>

definition spec_fee_valid :: "(string \<Rightarrow> BigNumber) \<Rightarrow> WalletSync \<Rightarrow> string \<Rightarrow> bool" where
  "spec_fee_valid bn sync f =
     (case bn f of Finite x \<Rightarrow> 0 \<le> x \<and> gte (bn (balance sync)) (Finite x) | _ \<Rightarrow> False)"

definition TransferDialog_submit ::
  "(string \<Rightarrow> BigNumber) \<Rightarrow> WalletSync \<Rightarrow> string \<Rightarrow> string \<Rightarrow> submission option" where
  "TransferDialog_submit bn sync address f =
     (if address \<noteq> [] \<and> spec_fee_valid bn sync f then Some (TransferSubmission address f)
      else None)"

definition AssignNftDialog_submit ::
  "(string \<Rightarrow> BigNumber) \<Rightarrow> WalletSync \<Rightarrow> string \<Rightarrow> string \<Rightarrow> submission option" where
  "AssignNftDialog_submit bn sync profile f =
     (if profile \<noteq> [] \<and> spec_fee_valid bn sync f then Some (AssignSubmission profile f)
      else None)"

definition FeeOnlyDialog_submit ::
  "(string \<Rightarrow> BigNumber) \<Rightarrow> WalletSync \<Rightarrow> (string \<Rightarrow> submission) \<Rightarrow> string
   \<Rightarrow> submission option" where
  "FeeOnlyDialog_submit bn sync onSubmit f =
     (if spec_fee_valid bn sync f then Some (onSubmit f) else None)"

text \<open>
  What the user enters into one of the five surfaces, and the surface's submit:
  the submission handed to the card's handler, or none when validation rejects.
\<close>

fun submitted_fee :: "submission \<Rightarrow> string" where
  "submitted_fee (TransferSubmission _ f) = f"
| "submitted_fee (AssignSubmission _ f) = f"
| "submitted_fee (UnassignSubmission f) = f"
| "submitted_fee (AddUrlSubmission values) = fee values"
| "submitted_fee (BurnSubmission f) = f"

fun surface_submit ::
  "(string \<Rightarrow> BigNumber) \<Rightarrow> (nat \<Rightarrow> string \<Rightarrow> bool) \<Rightarrow> WalletSync \<Rightarrow> submission
   \<Rightarrow> submission option" where
  "surface_submit bn amount sync (TransferSubmission address f) =
     TransferDialog_submit bn sync address f"
| "surface_submit bn amount sync (AssignSubmission profile f) =
     AssignNftDialog_submit bn sync profile f"
| "surface_submit bn amount sync (UnassignSubmission f) =
     FeeOnlyDialog_submit bn sync UnassignSubmission f"
| "surface_submit bn amount sync (AddUrlSubmission values) =
     addUrlForm_handleSubmit bn amount sync values"
| "surface_submit bn amount sync (BurnSubmission f) =
     FeeOnlyDialog_submit bn sync BurnSubmission f"

text \<open>The calls a press of a surface's submit button issues: one, or none.\<close>

definition submit_pressed ::
  "(string \<Rightarrow> BigNumber) \<Rightarrow> (nat \<Rightarrow> string \<Rightarrow> bool) \<Rightarrow> WalletSync \<Rightarrow> NftRecord \<Rightarrow> submission
   \<Rightarrow> 'e effect list" where
  "submit_pressed bn amount sync nft entered =
     (case surface_submit bn amount sync entered of
        None \<Rightarrow> []
      | Some sub \<Rightarrow> [Invoke (handler_call sync nft sub)])"

section \<open>The confirmation dialog\<close>

text \<open>
  The two callbacks the card passes to ConfirmationDialog:
  \<open>close = () => setSummary(null)\<close> and \<open>onConfirm = () => updateNfts()\<close>.
\<close>

definition close :: "'tx card \<Rightarrow> 'tx card" where
  "close s = s\<lparr>summary := None\<rparr>"

definition onConfirm :: "'e effect list" where
  "onConfirm = [UpdateNfts]"

text \<open>
  Modelled from the spec: the component ConfirmationDialog is not among the
  sources. The spec's Confirmation Gate: \<open>confirm()\<close> clears the pending summary and
  invokes the refresh callback, \<open>dismiss()\<close> clears the pending summary without
  invoking refresh, and each is a no-op when nothing is pending. The dialog clears
  through the \<open>close\<close> callback and refreshes through \<open>onConfirm\<close>.
\<close>

definition confirm :: "'tx card \<Rightarrow> 'tx card \<times> 'e effect list" where
  "confirm s = (case summary s of None \<Rightarrow> (s, []) | Some _ \<Rightarrow> (close s, onConfirm))"

definition dismiss :: "'tx card \<Rightarrow> 'tx card \<times> 'e effect list" where
  "dismiss s = (case summary s of None \<Rightarrow> (s, []) | Some _ \<Rightarrow> (close s, []))"

section \<open>The card as a machine over user and backend events\<close>

text \<open>
  The event loop is single-threaded: one callback runs at a time, on the current
  state. A menu click on a disabled or absent item does nothing. \<open>Called\<close> is a
  surface handing a submission to its handler; \<open>Settled\<close> and \<open>ToggleSettled\<close> are
  the promises of the calls settling.
\<close>

datatype ('u, 'tx, 'e) ui_event =
    Clicked menu_action
  | Called submission
  | Settled submission "('tx, 'e) Result settled"
  | ToggleSettled "('u, 'e) Result settled"
  | ConfirmPressed
  | DismissPressed

fun step ::
  "WalletSync \<Rightarrow> NftRecord \<Rightarrow> ('u, 'tx, 'e) ui_event \<Rightarrow> 'tx card \<Rightarrow> 'tx card \<times> 'e effect list" where
  "step sync nft (Clicked a) s =
     (if action_enabled nft a then menu_onClick nft a s else (s, []))"
| "step sync nft (Called sub) s = (s, [Invoke (handler_call sync nft sub)])"
| "step sync nft (Settled sub (Fulfilled result)) s = handler_then sub result s"
| "step sync nft (Settled sub Rejected) s = (s, [])"
| "step sync nft (ToggleSettled (Fulfilled result)) s = toggleVisibility_then result s"
| "step sync nft (ToggleSettled Rejected) s = (s, [])"
| "step sync nft ConfirmPressed s = confirm s"
| "step sync nft DismissPressed s = dismiss s"

fun run ::
  "WalletSync \<Rightarrow> NftRecord \<Rightarrow> ('u, 'tx, 'e) ui_event list \<Rightarrow> 'tx card
   \<Rightarrow> 'tx card \<times> 'e effect list" where
  "run sync nft [] s = (s, [])"
| "run sync nft (ev # evs) s =
     (case step sync nft ev s of
        (s1, fx1) \<Rightarrow> (case run sync nft evs s1 of (s2, fx2) \<Rightarrow> (s2, fx1 @ fx2)))"

text \<open>The card as first rendered: every surface closed, no summary.\<close>

definition initial_card :: "'tx card" where
  "initial_card =
     \<lparr>transferOpen = False, assignOpen = False, unassignOpen = False,
      addUrlOpen = False, burnOpen = False, summary = None\<rparr>"

fun is_toggle_event :: "('u, 'tx, 'e) ui_event \<Rightarrow> bool" where
  "is_toggle_event (ToggleSettled _) = True"
| "is_toggle_event _ = False"

fun is_confirm_event :: "('u, 'tx, 'e) ui_event \<Rightarrow> bool" where
  "is_confirm_event ConfirmPressed = True"
| "is_confirm_event _ = False"

section \<open>The wallet commands (src/commands.ts)\<close>

text \<open>
  Every function of the file awaits one \<open>invoke(name, args)\<close> of the bridge and has no
  \<open>try\<close> or \<open>catch\<close>. The bridge is a parameter: its promise fulfils with a payload
  or rejects, either with a failure the backend reports or with a fault of the
  bridge itself. \<open>DerivationMode\<close> (of \<open>./models\<close>) is the type parameter \<open>'m\<close>.
\<close>

datatype 'm arg = Num int | Str string | Flag bool | Mode 'm

datatype 'c fault = BackendFailure 'c | BoundaryFault 'c

type_synonym ('m, 'v, 'c) bridge = "string \<Rightarrow> (string \<times> 'm arg) list \<Rightarrow> 'c fault + 'v"

text \<open>
  \<open>await invoke(...)\<close> in a function of type \<open>Promise<void>\<close> drops the payload;
  \<open>return await invoke(...)\<close> hands it on as it is. A rejection is rethrown by
  \<open>await\<close> in both.
\<close>

definition await_void :: "'c fault + 'v \<Rightarrow> 'c fault + 'v option" where
  "await_void r = (case r of Inl f \<Rightarrow> Inl f | Inr _ \<Rightarrow> Inr None)"

definition await_return :: "'c fault + 'v \<Rightarrow> 'c fault + 'v option" where
  "await_return r = (case r of Inl f \<Rightarrow> Inl f | Inr v \<Rightarrow> Inr (Some v))"

definition initialize :: "('m, 'v, 'c) bridge \<Rightarrow> 'c fault + 'v option" where
  "initialize invoke = await_void (invoke ''initialize'' [])"

definition activeWallet :: "('m, 'v, 'c) bridge \<Rightarrow> 'c fault + 'v option" where
  "activeWallet invoke = await_return (invoke ''active_wallet'' [])"

definition walletConfig :: "('m, 'v, 'c) bridge \<Rightarrow> int \<Rightarrow> 'c fault + 'v option" where
  "walletConfig invoke fingerprint =
     await_return (invoke ''wallet_config'' [(''fingerprint'', Num fingerprint)])"

definition loginWallet :: "('m, 'v, 'c) bridge \<Rightarrow> int \<Rightarrow> 'c fault + 'v option" where
  "loginWallet invoke fingerprint =
     await_void (invoke ''login_wallet'' [(''fingerprint'', Num fingerprint)])"

definition logoutWallet :: "('m, 'v, 'c) bridge \<Rightarrow> 'c fault + 'v option" where
  "logoutWallet invoke = await_void (invoke ''logout_wallet'' [])"

definition walletList :: "('m, 'v, 'c) bridge \<Rightarrow> 'c fault + 'v option" where
  "walletList invoke = await_return (invoke ''wallet_list'' [])"

definition generateMnemonic :: "('m, 'v, 'c) bridge \<Rightarrow> bool \<Rightarrow> 'c fault + 'v option" where
  "generateMnemonic invoke use24Words =
     await_return (invoke ''generate_mnemonic'' [(''use24Words'', Flag use24Words)])"

definition createWallet ::
  "('m, 'v, 'c) bridge \<Rightarrow> string \<Rightarrow> string \<Rightarrow> bool \<Rightarrow> 'c fault + 'v option" where
  "createWallet invoke name mnemonic saveMnemonic =
     await_void (invoke ''create_wallet''
       [(''name'', Str name), (''mnemonic'', Str mnemonic), (''saveMnemonic'', Flag saveMnemonic)])"

definition importWallet ::
  "('m, 'v, 'c) bridge \<Rightarrow> string \<Rightarrow> string \<Rightarrow> 'c fault + 'v option" where
  "importWallet invoke name key =
     await_void (invoke ''import_wallet'' [(''name'', Str name), (''key'', Str key)])"

definition deleteWallet :: "('m, 'v, 'c) bridge \<Rightarrow> int \<Rightarrow> 'c fault + 'v option" where
  "deleteWallet invoke fingerprint =
     await_void (invoke ''delete_wallet'' [(''fingerprint'', Num fingerprint)])"

definition renameWallet ::
  "('m, 'v, 'c) bridge \<Rightarrow> int \<Rightarrow> string \<Rightarrow> 'c fault + 'v option" where
  "renameWallet invoke fingerprint name =
     await_void (invoke ''rename_wallet'' [(''fingerprint'', Num fingerprint), (''name'', Str name)])"

definition setDerivationMode ::
  "('m, 'v, 'c) bridge \<Rightarrow> int \<Rightarrow> 'm \<Rightarrow> 'c fault + 'v option" where
  "setDerivationMode invoke fingerprint derivationMode =
     await_void (invoke ''set_derivation_mode''
       [(''fingerprint'', Num fingerprint), (''derivationMode'', Mode derivationMode)])"

definition setDerivationBatchSize ::
  "('m, 'v, 'c) bridge \<Rightarrow> int \<Rightarrow> int \<Rightarrow> 'c fault + 'v option" where
  "setDerivationBatchSize invoke fingerprint derivationBatchSize =
     await_void (invoke ''set_derivation_batch_size''
       [(''fingerprint'', Num fingerprint), (''derivationBatchSize'', Num derivationBatchSize)])"

text \<open>The thirteen operations as one type, and the function each one names.\<close>

datatype 'm operation =
    Initialize
  | ActiveWallet
  | WalletConfig int
  | LoginWallet int
  | LogoutWallet
  | WalletList
  | GenerateMnemonic bool
  | CreateWallet string string bool
  | ImportWallet string string
  | DeleteWallet int
  | RenameWallet int string
  | SetDerivationMode int 'm
  | SetDerivationBatchSize int int

fun perform :: "('m, 'v, 'c) bridge \<Rightarrow> 'm operation \<Rightarrow> 'c fault + 'v option" where
  "perform invoke Initialize = initialize invoke"
| "perform invoke ActiveWallet = activeWallet invoke"
| "perform invoke (WalletConfig fp) = walletConfig invoke fp"
| "perform invoke (LoginWallet fp) = loginWallet invoke fp"
| "perform invoke LogoutWallet = logoutWallet invoke"
| "perform invoke WalletList = walletList invoke"
| "perform invoke (GenerateMnemonic w) = generateMnemonic invoke w"
| "perform invoke (CreateWallet n m sv) = createWallet invoke n m sv"
| "perform invoke (ImportWallet n k) = importWallet invoke n k"
| "perform invoke (DeleteWallet fp) = deleteWallet invoke fp"
| "perform invoke (RenameWallet fp n) = renameWallet invoke fp n"
| "perform invoke (SetDerivationMode fp m) = setDerivationMode invoke fp m"
| "perform invoke (SetDerivationBatchSize fp n) = setDerivationBatchSize invoke fp n"

text \<open>The name and the arguments an operation sends to the bridge.\<close>

fun bridge_request :: "'m operation \<Rightarrow> string \<times> (string \<times> 'm arg) list" where
  "bridge_request Initialize = (''initialize'', [])"
| "bridge_request ActiveWallet = (''active_wallet'', [])"
| "bridge_request (WalletConfig fp) = (''wallet_config'', [(''fingerprint'', Num fp)])"
| "bridge_request (LoginWallet fp) = (''login_wallet'', [(''fingerprint'', Num fp)])"
| "bridge_request LogoutWallet = (''logout_wallet'', [])"
| "bridge_request WalletList = (''wallet_list'', [])"
| "bridge_request (GenerateMnemonic w) = (''generate_mnemonic'', [(''use24Words'', Flag w)])"
| "bridge_request (CreateWallet n m sv) =
     (''create_wallet'', [(''name'', Str n), (''mnemonic'', Str m), (''saveMnemonic'', Flag sv)])"
| "bridge_request (ImportWallet n k) = (''import_wallet'', [(''name'', Str n), (''key'', Str k)])"
| "bridge_request (DeleteWallet fp) = (''delete_wallet'', [(''fingerprint'', Num fp)])"
| "bridge_request (RenameWallet fp n) =
     (''rename_wallet'', [(''fingerprint'', Num fp), (''name'', Str n)])"
| "bridge_request (SetDerivationMode fp m) =
     (''set_derivation_mode'', [(''fingerprint'', Num fp), (''derivationMode'', Mode m)])"
| "bridge_request (SetDerivationBatchSize fp n) =
     (''set_derivation_batch_size'', [(''fingerprint'', Num fp), (''derivationBatchSize'', Num n)])"

section \<open>Concrete inputs for the examples\<close>

definition example_nft :: NftRecord where
  "example_nft =
     \<lparr>launcher_id = ''nft1'', visible = True, created_height = None, owner_did = Some ''did1''\<rparr>"

definition example_sync :: WalletSync where
  "example_sync = \<lparr>balance = ''1'', unit_decimals = 12, burn_address = ''xch1burn''\<rparr>"

definition example_values :: AddUrlValues where
  "example_values = \<lparr>url = ''https://example.com/a.png'', kind = ''data'', fee = ''2''\<rparr>"

text \<open>A parser that knows three decimal strings and takes all others for NaN.\<close>

definition example_bn :: "string \<Rightarrow> BigNumber" where
  "example_bn a =
     (if a = ''0'' then Finite 0 else if a = ''1'' then Finite 1
      else if a = ''2'' then Finite 2 else NaN)"

definition example_amount :: "nat \<Rightarrow> string \<Rightarrow> bool" where
  "example_amount decimals a = (example_bn a \<noteq> NaN)"

text \<open>A bridge whose backend refuses every command.\<close>

definition refusing_bridge :: "(unit, unit, string) bridge" where
  "refusing_bridge name args = Inl (BackendFailure ''wallet is locked'')"

text \<open>
  An entity that is on the chain, and add-URL values whose fee the balance of
  \<open>example_sync\<close> covers.
\<close>

definition created_nft :: NftRecord where
  "created_nft =
     \<lparr>launcher_id = ''nft1'', visible = True, created_height = Some 100,
      owner_did = Some ''did1''\<rparr>"

definition covered_values :: AddUrlValues where
  "covered_values = \<lparr>url = ''https://example.com/a.png'', kind = ''data'', fee = ''1''\<rparr>"

text \<open>
  The add-URL surface opened from the menu and its form submitted twice before the
  first call has settled (the surface stays open until a call settles), both calls
  succeeding, and no press of confirm or dismiss anywhere.
\<close>

definition double_submit :: "(unit, nat, string) ui_event list" where
  "double_submit =
     [Clicked OpenAddUrl,
      Called (AddUrlSubmission covered_values), Called (AddUrlSubmission covered_values),
      Settled (AddUrlSubmission covered_values) (Fulfilled (ResultOk 1)),
      Settled (AddUrlSubmission covered_values) (Fulfilled (ResultOk 2))]"

text \<open>A success that is dismissed, then a success that is confirmed.\<close>

definition dismiss_then_confirm :: "(unit, nat, string) ui_event list" where
  "dismiss_then_confirm =
     [Settled (BurnSubmission ''0'') (Fulfilled (ResultOk 1)), DismissPressed,
      Settled (BurnSubmission ''0'') (Fulfilled (ResultOk 2)), ConfirmPressed]"

section \<open>Facts about the handlers\<close>

lemmas then_defs = onTransferSubmit_then_def onAssignSubmit_then_def onUnassignSubmit_then_def
  onAddUrlSubmit_then_def onBurnSubmit_then_def

lemma handler_then_ok:
  "handler_then sub (ResultOk d) s = (fst (handler_then sub (ResultOk d) s), [])"
  "summary (fst (handler_then sub (ResultOk d) s)) = Some d"
  by (cases sub; simp add: then_defs)+

lemma handler_then_error:
  "summary (fst (handler_then sub (ResultError e) s)) = summary s"
  "\<exists>msg. snd (handler_then sub (ResultError e) s) = [ConsoleError msg e]"
  by (cases sub; simp add: then_defs)+

lemma handler_then_closes: "\<not> surface_open sub (fst (handler_then sub r s))"
  by (cases sub; cases r; simp add: then_defs)

lemma menu_onClick_refresh: "count_list (snd (menu_onClick nft a s)) UpdateNfts = 0"
  by (cases a) simp_all

lemma handler_then_refresh: "count_list (snd (handler_then sub r s)) UpdateNfts = 0"
  by (cases sub; cases r; simp add: then_defs)

lemma confirm_refresh: "count_list (snd (confirm s)) UpdateNfts \<le> 1"
  by (simp add: confirm_def onConfirm_def split: option.splits)

text \<open>Apart from the visibility toggle, only a press of confirm can refresh, and once.\<close>

lemma step_refresh:
  "\<not> is_toggle_event ev \<Longrightarrow>
   count_list (snd (step sync nft ev s)) UpdateNfts \<le> (if is_confirm_event ev then 1 else 0)"
proof (cases ev)
  case (Clicked a)
  then show ?thesis by (simp add: menu_onClick_refresh)
next
  case (Called sub)
  then show ?thesis by simp
next
  case (Settled sub outcome)
  then show ?thesis by (cases outcome) (simp_all add: handler_then_refresh)
next
  case (ToggleSettled outcome)
  assume "\<not> is_toggle_event ev"
  with ToggleSettled show ?thesis by simp
next
  case ConfirmPressed
  then show ?thesis using confirm_refresh [of s] by simp
next
  case DismissPressed
  then show ?thesis by (simp add: dismiss_def split: option.splits)
qed

lemma run_refresh:
  "\<not> list_ex is_toggle_event evs \<Longrightarrow>
   count_list (snd (run sync nft evs s)) UpdateNfts \<le> length (filter is_confirm_event evs)"
proof (induction evs arbitrary: s)
  case Nil
  then show ?case by simp
next
  case (Cons ev evs)
  obtain s1 fx1 where st: "step sync nft ev s = (s1, fx1)" by (cases "step sync nft ev s")
  obtain s2 fx2 where rn: "run sync nft evs s1 = (s2, fx2)" by (cases "run sync nft evs s1")
  from Cons.prems have nt: "\<not> is_toggle_event ev" and rest: "\<not> list_ex is_toggle_event evs"
    by simp_all
  have a: "count_list fx1 UpdateNfts \<le> (if is_confirm_event ev then 1 else 0)"
    using step_refresh [OF nt, of sync nft s] st by simp
  have b: "count_list fx2 UpdateNfts \<le> length (filter is_confirm_event evs)"
    using Cons.IH [OF rest, of s1] rn by simp
  from a b show ?case by (auto simp: st rn split: if_splits)
qed

text \<open>The validation does not reject everything: a fee the balance covers goes through.\<close>

lemma covered_fee_accepted:
  "surface_submit example_bn example_amount example_sync
     (AddUrlSubmission (example_values\<lparr>fee := ''1''\<rparr>))
   = Some (AddUrlSubmission (example_values\<lparr>fee := ''1''\<rparr>))"
  by (simp add: addUrlForm_handleSubmit_def addUrlFormSchema_def example_values_def
      example_sync_def example_bn_def example_amount_def fee_or_zero_def)

section \<open>The pending summary\<close>

text \<open>
  C1, as the code has it: each of the five handlers, on an ok result, stores the new
  summary whatever the card holds, so a pending summary is replaced; on an error
  result, on a rejected promise, on a call, on a menu click and on the visibility
  toggle the summary stays as it was; the \<open>close\<close> callback handed to the
  confirmation dialog sets it to none.
\<close>

theorem summary_stored_on_ok_cleared_by_close:
  "summary (fst (handler_then sub (ResultOk d) s)) = Some d
   \<and> summary (fst (handler_then sub (ResultError e) s)) = summary s
   \<and> summary (fst (step sync nft (Settled sub Rejected) s)) = summary s
   \<and> summary (fst (step sync nft (Called sub) s)) = summary s
   \<and> summary (fst (step sync nft (Clicked a) s)) = summary s
   \<and> summary (fst (step sync nft (ToggleSettled outcome) s)) = summary s
   \<and> summary (close s) = None"
proof -
  have "summary (fst (step sync nft (Clicked a) s)) = summary s"
    by (cases a) simp_all
  moreover have "summary (fst (step sync nft (ToggleSettled outcome) s)) = summary s"
    by (cases outcome) (simp_all add: toggleVisibility_then_def split: Result.splits)
  ultimately show ?thesis
    by (simp add: handler_then_ok handler_then_error close_def)
qed

text \<open>
  C1 as stated fails, on a run the card can make. The entity is created, so the
  add-URL item is enabled, and the form's values pass the schema, so each press of
  submit reaches the handler; the surface is open at both presses. After the first
  success of \<open>double_submit\<close> the card holds summary 1; the second success replaces
  it by summary 2, with no confirm and no dismiss in the whole run.
\<close>

theorem pending_summary_replaced:
  "action_enabled created_nft OpenAddUrl
   \<and> surface_submit example_bn example_amount example_sync (AddUrlSubmission covered_values)
       = Some (AddUrlSubmission covered_values)
   \<and> addUrlOpen (fst (run example_sync created_nft (take 1 double_submit) initial_card))
   \<and> addUrlOpen (fst (run example_sync created_nft (take 2 double_submit) initial_card))
   \<and> summary (fst (run example_sync created_nft (butlast double_submit) initial_card)) = Some 1
   \<and> summary (fst (run example_sync created_nft double_submit initial_card)) = Some 2
   \<and> \<not> list_ex is_confirm_event double_submit
   \<and> DismissPressed \<notin> set double_submit"
proof -
  have enabled: "action_enabled created_nft OpenAddUrl"
    by (simp add: action_enabled_def menu_items_def not_created_def created_nft_def)
  have valid: "surface_submit example_bn example_amount example_sync
                 (AddUrlSubmission covered_values) = Some (AddUrlSubmission covered_values)"
    by (simp add: addUrlForm_handleSubmit_def addUrlFormSchema_def covered_values_def
        example_sync_def example_bn_def example_amount_def fee_or_zero_def)
  have opened: "step example_sync created_nft (Clicked OpenAddUrl) (initial_card :: nat card)
                  = (initial_card\<lparr>addUrlOpen := True\<rparr>, [] :: string effect list)"
    using enabled by simp
  have trace:
    "addUrlOpen (fst (run example_sync created_nft (take 1 double_submit) initial_card))
     \<and> addUrlOpen (fst (run example_sync created_nft (take 2 double_submit) initial_card))
     \<and> summary (fst (run example_sync created_nft (butlast double_submit) initial_card)) = Some 1
     \<and> summary (fst (run example_sync created_nft double_submit initial_card)) = Some 2"
    by (simp add: double_submit_def opened onAddUrlSubmit_then_def del: step.simps(1))
  have quiet: "\<not> list_ex is_confirm_event double_submit \<and> DismissPressed \<notin> set double_submit"
    by (simp add: double_submit_def)
  from enabled valid trace quiet show ?thesis by simp
qed

section \<open>Validation before the call\<close>

text \<open>
  C2: when the balance parses to \<open>b\<close> and the entered fee to \<open>x\<close> with \<open>b < x\<close>, the
  submit of each of the five surfaces hands nothing to its handler, and no call is
  issued.
\<close>

theorem fee_above_balance_rejected:
  assumes "bn (balance sync) = Finite b"
    and "fee_or_zero bn (submitted_fee entered) = Finite x"
    and "b < x"
  shows "surface_submit bn amount sync entered = None
         \<and> submit_pressed bn amount sync nft entered = []"
proof -
  have "surface_submit bn amount sync entered = None"
    using assms
    by (cases entered; auto simp: TransferDialog_submit_def AssignNftDialog_submit_def
        FeeOnlyDialog_submit_def addUrlForm_handleSubmit_def addUrlFormSchema_def
        spec_fee_valid_def fee_or_zero_def split: BigNumber.splits if_splits)
  then show ?thesis by (simp add: submit_pressed_def)
qed

theorem fee_above_balance_rejected_witness:
  "example_bn (balance example_sync) = Finite 1
   \<and> fee_or_zero example_bn (submitted_fee (AddUrlSubmission example_values)) = Finite 2
   \<and> (1::rat) < 2
   \<and> surface_submit example_bn example_amount example_sync (AddUrlSubmission example_values) = None
   \<and> submit_pressed example_bn example_amount example_sync example_nft
        (AddUrlSubmission example_values) = ([] :: string effect list)"
proof -
  have h1: "example_bn (balance example_sync) = Finite 1"
    by (simp add: example_bn_def example_sync_def)
  have h2: "fee_or_zero example_bn (submitted_fee (AddUrlSubmission example_values)) = Finite 2"
    by (simp add: fee_or_zero_def example_bn_def example_values_def)
  have h3: "(1::rat) < 2" by simp
  from fee_above_balance_rejected [OF h1 h2 h3] h1 h2 h3 show ?thesis by simp
qed

section \<open>Confirmation and refresh\<close>

text \<open>
  C3: a successful submission of any of the five handlers has no effect besides
  storing the summary, so the refresh callback does not fire on the ok result;
  the confirm that follows fires it once and clears the summary, and a second
  confirm fires nothing. In any run without visibility toggles the refresh
  callback fires at most as often as confirm is pressed.
\<close>

theorem refresh_once_only_after_confirm:
  fixes d :: "'tx" and s :: "'tx card" and evs :: "('u, 'tx, 'e) ui_event list"
  shows
  "snd (handler_then sub (ResultOk d :: ('tx, 'e) Result) s) = []
   \<and> summary (fst (handler_then sub (ResultOk d :: ('tx, 'e) Result) s)) = Some d
   \<and> run sync nft [Settled sub (Fulfilled (ResultOk d)), ConfirmPressed :: ('u, 'tx, 'e) ui_event] s
       = (close (fst (handler_then sub (ResultOk d :: ('tx, 'e) Result) s)), [UpdateNfts])
   \<and> run sync nft [Settled sub (Fulfilled (ResultOk d)), ConfirmPressed, ConfirmPressed
                    :: ('u, 'tx, 'e) ui_event] s
       = (close (fst (handler_then sub (ResultOk d :: ('tx, 'e) Result) s)), [UpdateNfts])
   \<and> (\<not> list_ex is_toggle_event evs \<longrightarrow>
        count_list (snd (run sync nft evs s)) UpdateNfts \<le> length (filter is_confirm_event evs))"
proof -
  define s1 where "s1 = fst (handler_then sub (ResultOk d :: ('tx, 'e) Result) s)"
  have ok: "handler_then sub (ResultOk d :: ('tx, 'e) Result) s = (s1, [])"
    unfolding s1_def by (rule handler_then_ok)
  have pend: "summary s1 = Some d"
    unfolding s1_def by (rule handler_then_ok)
  have first: "confirm s1 = (close s1, [UpdateNfts :: 'e effect])"
    using pend by (simp add: confirm_def onConfirm_def)
  have second: "confirm (close s1) = (close s1, [] :: 'e effect list)"
    by (simp add: confirm_def close_def)
  show ?thesis
    using run_refresh [of evs sync nft s] by (simp add: ok pend first second)
qed

theorem refresh_once_only_after_confirm_witness:
  "\<not> list_ex is_toggle_event dismiss_then_confirm
   \<and> count_list (snd (run example_sync example_nft dismiss_then_confirm initial_card)) UpdateNfts
       \<le> length (filter is_confirm_event dismiss_then_confirm)
   \<and> snd (run example_sync example_nft dismiss_then_confirm initial_card) = [UpdateNfts]
   \<and> run example_sync example_nft
        [Settled (BurnSubmission ''0'') (Fulfilled (ResultOk (2::nat))),
         ConfirmPressed :: (unit, nat, string) ui_event] initial_card
       = (initial_card, [UpdateNfts])"
proof -
  have free: "\<not> list_ex is_toggle_event dismiss_then_confirm"
    by (simp add: dismiss_then_confirm_def)
  have trace: "snd (run example_sync example_nft dismiss_then_confirm initial_card) = [UpdateNfts]"
    by (simp add: dismiss_then_confirm_def initial_card_def onBurnSubmit_then_def
        confirm_def dismiss_def close_def onConfirm_def)
  have closed: "close (fst (handler_then (BurnSubmission ''0'')
                  (ResultOk (2::nat) :: (nat, string) Result) initial_card)) = initial_card"
    by (simp add: initial_card_def onBurnSubmit_then_def close_def)
  from refresh_once_only_after_confirm
         [of "BurnSubmission ''0''" "2::nat" initial_card example_sync example_nft
             dismiss_then_confirm]
       free trace closed
  show ?thesis by simp
qed

text \<open>
  C4: dismiss sets the summary to none and leaves every other cell of the card as
  it was; it has no effect at all, so it neither refreshes nor calls the backend.
  After a success that is dismissed, the run has refreshed nothing.
\<close>

theorem dismiss_clears_summary_only:
  fixes d :: "'tx" and s :: "'tx card"
  shows
  "dismiss s = (s\<lparr>summary := None\<rparr>, [] :: 'e effect list)
   \<and> step sync nft (DismissPressed :: ('u, 'tx, 'e) ui_event) s = (s\<lparr>summary := None\<rparr>, [])
   \<and> snd (run sync nft [Settled sub (Fulfilled (ResultOk d)), DismissPressed
                         :: ('u, 'tx, 'e) ui_event] s) = []"
proof -
  have cleared: "dismiss c = (c\<lparr>summary := None\<rparr>, [] :: 'e effect list)" for c :: "'tx card"
    by (simp add: dismiss_def close_def split: option.splits)
  define s1 where "s1 = fst (handler_then sub (ResultOk d :: ('tx, 'e) Result) s)"
  have ok: "handler_then sub (ResultOk d :: ('tx, 'e) Result) s = (s1, [])"
    unfolding s1_def by (rule handler_then_ok)
  show ?thesis by (simp add: cleared ok)
qed

section \<open>Actions of an entity that is not yet created\<close>

text \<open>
  C5: when \<open>created_height\<close> is null, the menu offers none of transfer, assign,
  unassign, add-URL and burn as an enabled item; the visibility item is enabled for
  every entity.
\<close>

theorem uncreated_entity_actions_disabled:
  "created_height nft = None \<Longrightarrow>
   \<not> action_enabled nft OpenTransfer \<and> \<not> action_enabled nft OpenAssign
   \<and> \<not> action_enabled nft OpenUnassign \<and> \<not> action_enabled nft OpenAddUrl
   \<and> \<not> action_enabled nft OpenBurn \<and> action_enabled nft ToggleVisibility
   \<and> action_enabled nft' ToggleVisibility"
  by (simp add: action_enabled_def menu_items_def not_created_def)

theorem uncreated_entity_actions_disabled_witness:
  "created_height example_nft = None
   \<and> \<not> action_enabled example_nft OpenTransfer \<and> \<not> action_enabled example_nft OpenAssign
   \<and> \<not> action_enabled example_nft OpenUnassign \<and> \<not> action_enabled example_nft OpenAddUrl
   \<and> \<not> action_enabled example_nft OpenBurn \<and> action_enabled example_nft ToggleVisibility
   \<and> action_enabled (example_nft\<lparr>created_height := Some 100\<rparr>) ToggleVisibility"
proof -
  have h: "created_height example_nft = None" by (simp add: example_nft_def)
  from uncreated_entity_actions_disabled
         [OF h, of "example_nft\<lparr>created_height := Some 100\<rparr>"] h
  show ?thesis by simp
qed

section \<open>Unassign and burn reuse the assign and transfer calls\<close>



section \<open>Outcomes of a call\<close>

text \<open>
  C8: whatever result the call of a mutating handler fulfils with, ok or error, the
  handler's input surface is closed afterwards; on an error result the handler
  writes the cause to \<open>console.error\<close>, as its only effect, and leaves the summary
  as it was.
\<close>

theorem surface_closed_on_every_result:
  "\<not> surface_open sub (fst (handler_then sub r s))
   \<and> \<not> surface_open sub (fst (step sync nft (Settled sub (Fulfilled r)) s))
   \<and> (\<exists>msg. snd (handler_then sub (ResultError e) s) = [ConsoleError msg e])
   \<and> summary (fst (handler_then sub (ResultError e) s)) = summary s"
  by (simp add: handler_then_closes handler_then_error)

text \<open>
  C9, as the code has it: each operation of commands.ts sends one request to the
  bridge; it raises exactly when the bridge rejects, with the bridge's own cause,
  be it a failure the backend reports or a fault of the bridge; otherwise it
  returns nothing or the bare payload. It never turns a failure into a value.
\<close>

theorem operations_rethrow_bridge_rejections:
  "(perform invoke op = Inl f) = (case_prod invoke (bridge_request op) = Inl f)
   \<and> (perform invoke op = await_void (case_prod invoke (bridge_request op))
      \<or> perform invoke op = await_return (case_prod invoke (bridge_request op)))"
  by (cases op; simp add: initialize_def activeWallet_def walletConfig_def loginWallet_def
      logoutWallet_def walletList_def generateMnemonic_def createWallet_def importWallet_def
      deleteWallet_def renameWallet_def setDerivationMode_def setDerivationBatchSize_def
      await_void_def await_return_def split: sum.splits)

text \<open>
  C9 as stated fails: when the backend refuses the command, \<open>initialize\<close> raises the
  backend's failure instead of returning an error outcome.
\<close>

theorem initialize_raises_backend_failure:
  "perform refusing_bridge Initialize = Inl (BackendFailure ''wallet is locked'')
   \<and> initialize refusing_bridge = Inl (BackendFailure ''wallet is locked'')"
  by (simp add: initialize_def refusing_bridge_def await_void_def)

text \<open>
  C10: when the visibility call fulfils with ok, the callback invokes the refresh
  callback at once and leaves the card, its summary included, as it was; when it
  fulfils with error, the callback throws an Error and writes nothing to
  \<open>console.error\<close>. The menu click itself issues \<open>updateNft\<close> with the flag negated.
\<close>

theorem toggle_bypasses_confirmation:
  "toggleVisibility_then (ResultOk u) s = (s, [UpdateNfts])
   \<and> toggleVisibility_then (ResultError e) s
       = (s, [Throw ''Failed to toggle visibility for NFT''])
   \<and> step sync nft (ToggleSettled (Fulfilled (ResultOk u))) s = (s, [UpdateNfts])
   \<and> step sync nft (ToggleSettled (Fulfilled (ResultError e))) s
       = (s, [Throw ''Failed to toggle visibility for NFT''])
   \<and> step sync nft (Clicked ToggleVisibility) s
       = (s, [Invoke (UpdateNft (launcher_id nft) (\<not> visible nft))])"
  by (simp add: toggleVisibility_then_def toggleVisibility_call_def action_enabled_def
      menu_items_def)

end
